theory Spec2Isabelle
  imports Complex_Main
begin

section \<open>JavaScript values\<close>

text \<open>
  The front end works on values produced by \<^verbatim>\<open>JSON.parse\<close> and on
  \<^verbatim>\<open>undefined\<close>. Numbers are modelled as reals with a separate \<^verbatim>\<open>NaN\<close>;
  an object is its list of properties and a property is looked up by \<open>map_of\<close>.
\<close>

datatype jsval =
    JUndefined
  | JNull
  | JBool bool
  | JNum real
  | JNaN
  | JStr string
  | JArr "jsval list"
  | JObj "(string \<times> jsval) list"

datatype js_error = TypeError | SyntaxError

text \<open>JavaScript truthiness: \<^verbatim>\<open>undefined\<close>, \<^verbatim>\<open>null\<close>, \<^verbatim>\<open>false\<close>, \<^verbatim>\<open>0\<close>,
  \<^verbatim>\<open>NaN\<close> and \<^verbatim>\<open>""\<close> are falsy, everything else is truthy.\<close>

fun truthy :: "jsval \<Rightarrow> bool" where
  "truthy JUndefined = False"
| "truthy JNull = False"
| "truthy (JBool b) = b"
| "truthy (JNum x) = (x \<noteq> 0)"
| "truthy JNaN = False"
| "truthy (JStr s) = (s \<noteq> [])"
| "truthy (JArr xs) = True"
| "truthy (JObj kvs) = True"

text \<open>\<^verbatim>\<open>a || b\<close>\<close>

definition js_or :: "jsval \<Rightarrow> jsval \<Rightarrow> jsval" where
  "js_or a b = (if truthy a then a else b)"

text \<open>\<^verbatim>\<open>v?.k\<close>: \<^verbatim>\<open>undefined\<close> on \<^verbatim>\<open>null\<close> and \<^verbatim>\<open>undefined\<close>, the property of an
  object, and \<^verbatim>\<open>undefined\<close> for a property that is not there (none of the names read
  by the components is a built-in property of a string, number, boolean or array).\<close>

fun opt_prop :: "jsval \<Rightarrow> string \<Rightarrow> jsval" where
  "opt_prop (JObj kvs) k = (case map_of kvs k of None \<Rightarrow> JUndefined | Some v \<Rightarrow> v)"
| "opt_prop v k = JUndefined"

text \<open>\<^verbatim>\<open>v.k\<close>: as \<^verbatim>\<open>v?.k\<close>, but a TypeError on \<^verbatim>\<open>null\<close> and \<^verbatim>\<open>undefined\<close>.\<close>

fun get_prop :: "jsval \<Rightarrow> string \<Rightarrow> js_error + jsval" where
  "get_prop JUndefined k = Inl TypeError"
| "get_prop JNull k = Inl TypeError"
| "get_prop v k = Inr (opt_prop v k)"

section \<open>The API client (api.js)\<close>

text \<open>
  What \<^verbatim>\<open>fetch\<close> gives back: the promise rejects on a network failure, and otherwise
  resolves to a response with a status and a body; the body is \<open>None\<close> when it is
  not JSON text.
\<close>

datatype fetch_outcome = NetworkFailure | Response nat "jsval option"

text \<open>
  \<^verbatim>\<open>const res = await fetch(url); return res.json();\<close> is the body of all five of
  \<^verbatim>\<open>getAnalyticsOverview\<close>, \<^verbatim>\<open>getYearlySummary\<close>, \<^verbatim>\<open>getSupplierPerformance\<close>,
  \<^verbatim>\<open>getEquipmentAnalysis\<close> and \<^verbatim>\<open>getPeriodComparison\<close>: the status is never read.
\<close>

fun fetch_json :: "fetch_outcome \<Rightarrow> js_error + jsval" where
  "fetch_json NetworkFailure = Inl TypeError"
| "fetch_json (Response status None) = Inl SyntaxError"
| "fetch_json (Response status (Some body)) = Inr body"

text \<open>\<^verbatim>\<open>Promise.all\<close>: resolves to the list of results when every promise resolves, and
  rejects when one of them rejects.\<close>

fun promise_all :: "(js_error + 'a) list \<Rightarrow> js_error + 'a list" where
  "promise_all [] = Inr []"
| "promise_all (Inl e # ps) = Inl e"
| "promise_all (Inr v # ps) = (case promise_all ps of Inl e \<Rightarrow> Inl e | Inr vs \<Rightarrow> Inr (v # vs))"

text \<open>The words of the specification for a failed sub-fetch: a network failure or a
  non-success response.\<close>

fun spec_fetch_failed :: "fetch_outcome \<Rightarrow> bool" where
  "spec_fetch_failed NetworkFailure = True"
| "spec_fetch_failed (Response status body) = (\<not> (200 \<le> status \<and> status \<le> 299))"

section \<open>Analytics.jsx\<close>

subsection \<open>Component state and loadAllData\<close>

record analytics =
  overview :: jsval
  yearly :: jsval
  suppliers :: jsval
  equipment :: jsval
  comparison :: jsval
  loading' :: bool

text \<open>The \<^verbatim>\<open>useState\<close> initial values.\<close>

definition analytics_init :: analytics where
  "analytics_init =
     \<lparr>overview = JNull, yearly = JNull, suppliers = JNull, equipment = JNull,
      comparison = JNull, loading' = True\<rparr>"

text \<open>
  \<^verbatim>\<open>loadAllData\<close>, run to its end on the outcomes of the five requests, in the order of
  the array given to \<^verbatim>\<open>Promise.all\<close>. The \<^verbatim>\<open>catch\<close> branch only logs.
\<close>

definition loadAllData ::
  "fetch_outcome \<Rightarrow> fetch_outcome \<Rightarrow> fetch_outcome \<Rightarrow> fetch_outcome \<Rightarrow> fetch_outcome
     \<Rightarrow> analytics \<Rightarrow> analytics" where
  "loadAllData o1 o2 o3 o4 o5 s =
     (let s0 = s\<lparr>loading' := True\<rparr> in
      case promise_all [fetch_json o1, fetch_json o2, fetch_json o3, fetch_json o4, fetch_json o5] of
        Inr [overviewData, yearlyData, suppliersData, equipmentData, comparisonData] \<Rightarrow>
          s0\<lparr>overview := overviewData, yearly := yearlyData, suppliers := suppliersData,
             equipment := equipmentData, comparison := comparisonData, loading' := False\<rparr>
      | _ \<Rightarrow> s0\<lparr>loading' := False\<rparr>)"

text \<open>What the component shows: the spinner, the "No data available" box, or the tabs.\<close>

datatype view = Spinner | NoData | Tabs

definition render :: "analytics \<Rightarrow> view" where
  "render s =
     (if loading' s then Spinner
      else if \<not> truthy (opt_prop (overview s) ''has_data'') then NoData
      else Tabs)"

subsection \<open>Derived chart data\<close>

definition radarData :: "jsval \<Rightarrow> jsval list" where
  "radarData ov =
     [JObj [(''metric'', JStr ''Yield''),
            (''value'', js_or (opt_prop (opt_prop ov ''production'') ''avg_yield'') (JNum 0)),
            (''fullMark'', JNum 100)],
      JObj [(''metric'', JStr ''QC Pass''),
            (''value'', js_or (opt_prop (opt_prop ov ''quality'') ''pass_rate'') (JNum 0)),
            (''fullMark'', JNum 100)],
      JObj [(''metric'', JStr ''Calibrations OK''),
            (''value'', js_or (opt_prop (opt_prop ov ''equipment'') ''calibration_pass_rate'') (JNum 0)),
            (''fullMark'', JNum 100)],
      JObj [(''metric'', JStr ''Quality Score''),
            (''value'', js_or (opt_prop (opt_prop ov ''quality'') ''quality_score'') (JNum 0)),
            (''fullMark'', JNum 100)]]"

text \<open>The four source fields of the radar chart, in the order of its entries.\<close>

definition radar_sources :: "jsval \<Rightarrow> jsval list" where
  "radar_sources ov =
     [opt_prop (opt_prop ov ''production'') ''avg_yield'',
      opt_prop (opt_prop ov ''quality'') ''pass_rate'',
      opt_prop (opt_prop ov ''equipment'') ''calibration_pass_rate'',
      opt_prop (opt_prop ov ''quality'') ''quality_score'']"

text \<open>A percentage as the backend sends it: a number from 0 to 100.\<close>

fun is_percentage :: "jsval \<Rightarrow> bool" where
  "is_percentage (JNum x) = (0 \<le> x \<and> x \<le> 100)"
| "is_percentage v = False"

text \<open>A well-formed overview: each of the four source fields is missing, falsy, or a
  percentage.\<close>

definition wf_overview :: "jsval \<Rightarrow> bool" where
  "wf_overview ov = list_all (\<lambda>v. \<not> truthy v \<or> is_percentage v) (radar_sources ov)"

text \<open>The arrow function given to \<^verbatim>\<open>map\<close> in \<^verbatim>\<open>supplierPieData\<close>; reading a property
  of \<^verbatim>\<open>null\<close> or \<^verbatim>\<open>undefined\<close> throws.\<close>

definition pie_entry :: "jsval \<Rightarrow> js_error + jsval" where
  "pie_entry s =
     (case get_prop s ''supplier_name'' of
        Inl e \<Rightarrow> Inl e
      | Inr supplier_name \<Rightarrow>
          Inr (JObj [(''name'', js_or supplier_name (opt_prop s ''supplier_id'')),
                     (''value'', opt_prop s ''total_deliveries''),
                     (''rate'', opt_prop s ''approval_rate'')]))"

text \<open>\<^verbatim>\<open>xs.map(f)\<close> for an \<open>f\<close> that may throw: the first exception ends the loop.\<close>

fun map_throwing :: "('a \<Rightarrow> js_error + 'b) \<Rightarrow> 'a list \<Rightarrow> js_error + 'b list" where
  "map_throwing f [] = Inr []"
| "map_throwing f (x # xs) =
     (case f x of
        Inl e \<Rightarrow> Inl e
      | Inr y \<Rightarrow> (case map_throwing f xs of Inl e \<Rightarrow> Inl e | Inr ys \<Rightarrow> Inr (y # ys)))"

text \<open>
  \<^verbatim>\<open>suppliers?.suppliers?.slice(0, 5).map(...) || []\<close>. A \<^verbatim>\<open>null\<close> or missing list
  short-circuits the chain to \<^verbatim>\<open>undefined\<close> and gives \<^verbatim>\<open>[]\<close>; an array is sliced and
  mapped (an array is truthy, also when empty); any other value has no \<^verbatim>\<open>slice\<close> that
  returns something with a \<^verbatim>\<open>map\<close>, and the call throws.
\<close>

fun supplierPieData :: "jsval \<Rightarrow> js_error + jsval" where
  "supplierPieData snapshot =
     (case opt_prop snapshot ''suppliers'' of
        JUndefined \<Rightarrow> Inr (JArr [])
      | JNull \<Rightarrow> Inr (JArr [])
      | JArr xs \<Rightarrow>
          (case map_throwing pie_entry (take 5 xs) of
             Inl e \<Rightarrow> Inl e
           | Inr es \<Rightarrow> Inr (JArr es))
      | _ \<Rightarrow> Inl TypeError)"

subsection \<open>Colours of the period comparison\<close>

text \<open>
  What \<^verbatim>\<open>comparison.changes?.batches_pct\<close> and its three siblings evaluate to:
  \<^verbatim>\<open>undefined\<close> when \<^verbatim>\<open>changes\<close> or the field is missing, \<^verbatim>\<open>null\<close>, or a number.
\<close>

datatype pct = Missing | Null | Pct real

text \<open>\<^verbatim>\<open>v >= 0\<close> and \<^verbatim>\<open>v <= 0\<close>: \<^verbatim>\<open>undefined\<close> converts to \<^verbatim>\<open>NaN\<close> and compares false,
  \<^verbatim>\<open>null\<close> converts to 0.\<close>

fun ge_zero :: "pct \<Rightarrow> bool" where
  "ge_zero Missing = False"
| "ge_zero Null = True"
| "ge_zero (Pct x) = (x \<ge> 0)"

fun le_zero :: "pct \<Rightarrow> bool" where
  "le_zero Missing = False"
| "le_zero Null = True"
| "le_zero (Pct x) = (x \<le> 0)"

record changes =
  batches_pct :: pct
  yield_pct :: pct
  hardness_pct :: pct
  complaints_pct :: pct

definition batches_class :: "pct \<Rightarrow> string" where
  "batches_class v = (if ge_zero v then ''text-green-600'' else ''text-red-600'')"

definition yield_class :: "pct \<Rightarrow> string" where
  "yield_class v = (if ge_zero v then ''text-green-600'' else ''text-red-600'')"

definition hardness_class :: "pct \<Rightarrow> string" where
  "hardness_class v = (if ge_zero v then ''text-blue-600'' else ''text-blue-600'')"

definition complaints_class :: "pct \<Rightarrow> string" where
  "complaints_class v = (if le_zero v then ''text-green-600'' else ''text-red-600'')"

text \<open>The four colour classes of the "Evolution" box, in the order of the markup:
  production, yield, hardness, complaints.\<close>

definition change_classes :: "changes \<Rightarrow> string list" where
  "change_classes c =
     [batches_class (batches_pct c), yield_class (yield_pct c),
      hardness_class (hardness_pct c), complaints_class (complaints_pct c)]"

section \<open>The summary stream (api.js, streamSummary)\<close>

text \<open>
  The state of the \<^verbatim>\<open>EventSource\<close> that \<^verbatim>\<open>streamSummary\<close> opens and returns, with
  the calls made to the three callbacks so far, oldest first.
\<close>

datatype callback_call = OnChunk jsval | OnDone | OnError jsval

record sse =
  closed :: bool
  calls :: "callback_call list"

text \<open>\<^verbatim>\<open>onDone\<close> and \<^verbatim>\<open>onError\<close> are called with \<^verbatim>\<open>?.()\<close>, so either may be left out;
  \<^verbatim>\<open>onChunk\<close> is called plainly.\<close>

record handlers =
  has_onDone :: bool
  has_onError :: bool

text \<open>An event of the channel: a message whose data is JSON text for a value (\<open>None\<close>
  when \<^verbatim>\<open>JSON.parse\<close> throws on it), or a transport error.\<close>

datatype sse_event = Message "jsval option" | ConnectionError

text \<open>\<^verbatim>\<open>eventSource.onmessage\<close>. An exception (from \<^verbatim>\<open>JSON.parse\<close>, or from reading
  \<^verbatim>\<open>data.done\<close> of \<^verbatim>\<open>null\<close>) leaves the handler before it does anything.\<close>

definition onmessage :: "handlers \<Rightarrow> jsval option \<Rightarrow> sse \<Rightarrow> sse" where
  "onmessage h parsed s =
     (case parsed of
        None \<Rightarrow> s
      | Some data \<Rightarrow>
          (case get_prop data ''done'' of
             Inl e \<Rightarrow> s
           | Inr done \<Rightarrow>
               if truthy done then
                 s\<lparr>closed := True, calls := calls s @ (if has_onDone h then [OnDone] else [])\<rparr>
               else if truthy (opt_prop data ''error'') then
                 s\<lparr>closed := True,
                   calls := calls s @ (if has_onError h then [OnError (opt_prop data ''error'')] else [])\<rparr>
               else if truthy (opt_prop data ''text'') then
                 s\<lparr>calls := calls s @ [OnChunk (opt_prop data ''text'')]\<rparr>
               else s))"

text \<open>\<^verbatim>\<open>eventSource.onerror\<close>\<close>

definition onerror :: "handlers \<Rightarrow> sse \<Rightarrow> sse" where
  "onerror h s =
     s\<lparr>closed := True,
       calls := calls s @ (if has_onError h then [OnError (JStr ''Connection error'')] else [])\<rparr>"

text \<open>A closed \<^verbatim>\<open>EventSource\<close> dispatches no event; an open one runs the handler.\<close>

definition deliver :: "handlers \<Rightarrow> sse_event \<Rightarrow> sse \<Rightarrow> sse" where
  "deliver h ev s =
     (if closed s then s
      else case ev of Message parsed \<Rightarrow> onmessage h parsed s | ConnectionError \<Rightarrow> onerror h s)"

definition sse_open :: sse where
  "sse_open = \<lparr>closed = False, calls = []\<rparr>"

text \<open>\<^verbatim>\<open>streamSummary\<close> followed by the events of the channel, in order.\<close>

definition streamSummary :: "handlers \<Rightarrow> sse_event list \<Rightarrow> sse" where
  "streamSummary h evs = fold (deliver h) evs sse_open"

text \<open>Modelled from the spec: the caller's accumulation callback (the component that
  consumes the stream is not part of the sources) appends each text chunk to the
  output so far.\<close>

fun accumulated :: "callback_call list \<Rightarrow> string" where
  "accumulated [] = []"
| "accumulated (OnChunk (JStr t) # cs) = t @ accumulated cs"
| "accumulated (c # cs) = accumulated cs"

fun is_terminal :: "callback_call \<Rightarrow> bool" where
  "is_terminal (OnChunk v) = False"
| "is_terminal OnDone = True"
| "is_terminal (OnError v) = True"

text \<open>The three payload shapes of the specification.\<close>

definition done_payload :: sse_event where
  "done_payload = Message (Some (JObj [(''done'', JBool True)]))"

definition error_payload :: "string \<Rightarrow> sse_event" where
  "error_payload m = Message (Some (JObj [(''error'', JStr m)]))"

definition text_payload :: "string \<Rightarrow> sse_event" where
  "text_payload t = Message (Some (JObj [(''text'', JStr t)]))"

section \<open>Chat.jsx\<close>

subsection \<open>State, requests and suspended calls\<close>

text \<open>Conversation ids are numbers; \<^verbatim>\<open>currentConvId\<close> is \<^verbatim>\<open>null\<close> (\<open>None\<close>) or an id.\<close>

record conversation =
  id' :: nat
  title :: string

record message =
  role :: string
  content :: jsval

record chat =
  conversations :: "conversation list"
  currentConvId :: "nat option"
  messages :: "message list"
  input :: string
  loading :: bool

definition chat_init :: chat where
  "chat_init = \<lparr>conversations = [], currentConvId = None, messages = [], input = [], loading = False\<rparr>"

text \<open>A settled promise of an API call (\<^verbatim>\<open>fetch\<close> followed by \<^verbatim>\<open>res.json()\<close>).\<close>

datatype 'a outcome = Rejected | Resolved 'a

datatype request =
    Api_getConversations
  | Api_getChatHistory nat
  | Api_createConversation
  | Api_deleteConversation nat
  | Api_chat nat string

text \<open>
  An async function suspended at its \<^verbatim>\<open>await\<close>, with the variables of its closure that
  it reads afterwards. A function of the component reads \<^verbatim>\<open>currentConvId\<close>,
  \<^verbatim>\<open>input\<close> and \<^verbatim>\<open>loading\<close> as they were at the render that created it, while a
  functional update \<^verbatim>\<open>setX(prev => ...)\<close> works on the state at the time it runs.
\<close>

datatype suspended =
    LoadConversations_await "nat option"
  | SelectConversation_await
  | CreateNewConversation_await
  | DeleteConversation_await nat "nat option"
  | HandleSubmit_create string "nat option"
  | HandleSubmit_chat "nat option"

text \<open>What a piece of an async function leaves behind: the state of the next render, the
  requests it issued, the calls now waiting for a response, whether its promise rejected,
  and whether an updater it queued throws when React runs it for the next render. React
  then unmounts the component (there is no error boundary): \<open>st\<close> is the last state
  that was rendered, and no later response changes anything.\<close>

record result =
  st :: chat
  issued :: "request list"
  waiting :: "suspended list"
  threw :: bool
  crashed :: bool

definition finished :: "chat \<Rightarrow> result" where
  "finished s = \<lparr>st = s, issued = [], waiting = [], threw = False, crashed = False\<rparr>"

text \<open>One piece after another.\<close>

definition and_then :: "result \<Rightarrow> result \<Rightarrow> result" where
  "and_then r r' =
     \<lparr>st = st r', issued = issued r @ issued r', waiting = waiting r', threw = threw r',
      crashed = (crashed r \<or> crashed r')\<rparr>"

text \<open>\<^verbatim>\<open>!convId\<close>: true of \<^verbatim>\<open>null\<close> and of the number 0.\<close>

fun no_id :: "nat option \<Rightarrow> bool" where
  "no_id None = True"
| "no_id (Some n) = (n = 0)"

text \<open>\<^verbatim>\<open>String.prototype.trim\<close> on a string of 8-bit characters: tab, line feed, vertical
  tab, form feed, carriage return, space and no-break space are white space.\<close>

definition is_space :: "char \<Rightarrow> bool" where
  "is_space c = (of_char c \<in> {9, 10, 11, 12, 13, 32, 160 :: nat})"

definition trim :: "string \<Rightarrow> string" where
  "trim s = rev (dropWhile is_space (rev (dropWhile is_space s)))"

subsection \<open>The functions of the component, piece by piece\<close>

definition selectConversation :: "nat \<Rightarrow> chat \<Rightarrow> result" where
  "selectConversation convId s =
     \<lparr>st = s\<lparr>currentConvId := Some convId\<rparr>, issued = [Api_getChatHistory convId],
      waiting = [SelectConversation_await], threw = False, crashed = False\<rparr>"

definition selectConversation_loaded :: "message list outcome \<Rightarrow> chat \<Rightarrow> result" where
  "selectConversation_loaded got s =
     (case got of
        Resolved history \<Rightarrow> finished (s\<lparr>messages := history\<rparr>)
      | Rejected \<Rightarrow> finished (s\<lparr>messages := []\<rparr>))"

definition loadConversations :: "nat option \<Rightarrow> chat \<Rightarrow> result" where
  "loadConversations cur s =
     \<lparr>st = s, issued = [Api_getConversations], waiting = [LoadConversations_await cur],
      threw = False, crashed = False\<rparr>"

text \<open>After \<^verbatim>\<open>await api.getConversations()\<close>; \<open>cur\<close> is the \<^verbatim>\<open>currentConvId\<close> of the closure.
  \<^verbatim>\<open>selectConversation\<close> is called without \<^verbatim>\<open>await\<close>.\<close>

definition loadConversations_loaded :: "nat option \<Rightarrow> conversation list outcome \<Rightarrow> chat \<Rightarrow> result" where
  "loadConversations_loaded cur got s =
     (case got of
        Rejected \<Rightarrow> finished s
      | Resolved convs \<Rightarrow>
          (let s1 = s\<lparr>conversations := convs\<rparr> in
           case convs of
             [] \<Rightarrow> finished s1
           | c # cs \<Rightarrow> if no_id cur then selectConversation (id' c) s1 else finished s1))"

definition createNewConversation :: "chat \<Rightarrow> result" where
  "createNewConversation s =
     \<lparr>st = s, issued = [Api_createConversation], waiting = [CreateNewConversation_await],
      threw = False, crashed = False\<rparr>"

definition createNewConversation_created :: "conversation outcome \<Rightarrow> chat \<Rightarrow> result" where
  "createNewConversation_created got s =
     (case got of
        Resolved conv \<Rightarrow>
          finished (s\<lparr>conversations := conv # conversations s, currentConvId := Some (id' conv),
                      messages := []\<rparr>)
      | Rejected \<Rightarrow> finished s)"

definition deleteConversation :: "nat \<Rightarrow> chat \<Rightarrow> result" where
  "deleteConversation convId s =
     \<lparr>st = s, issued = [Api_deleteConversation convId],
      waiting = [DeleteConversation_await convId (currentConvId s)], threw = False,
      crashed = False\<rparr>"

text \<open>After \<^verbatim>\<open>await api.deleteConversation(convId)\<close>; \<open>cur\<close> is the \<^verbatim>\<open>currentConvId\<close> of
  the closure. The \<^verbatim>\<open>catch\<close> branch only logs.\<close>

definition deleteConversation_deleted :: "nat \<Rightarrow> nat option \<Rightarrow> unit outcome \<Rightarrow> chat \<Rightarrow> result" where
  "deleteConversation_deleted convId cur got s =
     (case got of
        Resolved u \<Rightarrow>
          (let s1 = s\<lparr>conversations := filter (\<lambda>c. id' c \<noteq> convId) (conversations s)\<rparr> in
           if cur = Some convId then finished (s1\<lparr>currentConvId := None, messages := []\<rparr>)
           else finished s1)
      | Rejected \<Rightarrow> finished s)"

text \<open>Lines 67 to 72 of \<^verbatim>\<open>handleSubmit\<close>, up to \<^verbatim>\<open>await api.chat(convId, input)\<close>.\<close>

definition handleSubmit_send :: "nat \<Rightarrow> string \<Rightarrow> nat option \<Rightarrow> chat \<Rightarrow> result" where
  "handleSubmit_send convId inp cur s =
     \<lparr>st = s\<lparr>messages := messages s @ [\<lparr>role = ''user'', content = JStr inp\<rparr>],
              input := [], loading := True\<rparr>,
      issued = [Api_chat convId inp], waiting = [HandleSubmit_chat cur], threw = False,
      crashed = False\<rparr>"

text \<open>\<^verbatim>\<open>handleSubmit\<close> from the submit event to its first \<^verbatim>\<open>await\<close>.\<close>

definition handleSubmit :: "chat \<Rightarrow> result" where
  "handleSubmit s =
     (if trim (input s) = [] \<or> loading s then finished s
      else case (if no_id (currentConvId s) then None else currentConvId s) of
        None \<Rightarrow>
          \<lparr>st = s, issued = [Api_createConversation],
           waiting = [HandleSubmit_create (input s) (currentConvId s)], threw = False,
           crashed = False\<rparr>
      | Some convId \<Rightarrow> handleSubmit_send convId (input s) (currentConvId s) s)"

text \<open>After \<^verbatim>\<open>await api.createConversation()\<close> on line 62, which is outside the
  \<^verbatim>\<open>try\<close>: a rejection leaves \<^verbatim>\<open>handleSubmit\<close> there.\<close>

definition handleSubmit_created :: "string \<Rightarrow> nat option \<Rightarrow> conversation outcome \<Rightarrow> chat \<Rightarrow> result" where
  "handleSubmit_created inp cur got s =
     (case got of
        Rejected \<Rightarrow> \<lparr>st = s, issued = [], waiting = [], threw = True, crashed = False\<rparr>
      | Resolved conv \<Rightarrow>
          handleSubmit_send (id' conv) inp cur
            (s\<lparr>conversations := conv # conversations s, currentConvId := Some (id' conv)\<rparr>))"

text \<open>The \<^verbatim>\<open>catch\<close> branch of \<^verbatim>\<open>handleSubmit\<close>, followed by its \<^verbatim>\<open>finally\<close>.\<close>

definition handleSubmit_failed :: "chat \<Rightarrow> result" where
  "handleSubmit_failed s =
     finished (s\<lparr>messages := messages s @ [\<lparr>role = ''assistant'', content = JStr ''Connection error.''\<rparr>],
                 loading := False\<rparr>)"

text \<open>
  After \<^verbatim>\<open>await api.chat(convId, input)\<close>. On a rejection the \<^verbatim>\<open>catch\<close> branch runs.
  On a response, line 73 queues the updater
  \<^verbatim>\<open>prev => [...prev, { role: 'assistant', content: response.response }]\<close>, line 74 calls
  \<^verbatim>\<open>loadConversations\<close> without \<^verbatim>\<open>await\<close>, from the closure of \<^verbatim>\<open>handleSubmit\<close>, and
  the \<^verbatim>\<open>finally\<close> resets the flag. \<^verbatim>\<open>response.response\<close> is read inside the updater,
  which React runs for the next render, outside the \<^verbatim>\<open>try\<close>: when the response is
  \<^verbatim>\<open>null\<close> the request of line 74 has been issued and the render throws.
\<close>

definition handleSubmit_replied :: "nat option \<Rightarrow> jsval outcome \<Rightarrow> chat \<Rightarrow> result" where
  "handleSubmit_replied cur got s =
     (case got of
        Rejected \<Rightarrow> handleSubmit_failed s
      | Resolved response \<Rightarrow>
          (let r = loadConversations cur s in
           case get_prop response ''response'' of
             Inl e \<Rightarrow> r\<lparr>crashed := True\<rparr>
           | Inr answer \<Rightarrow>
               r\<lparr>st := (st r)\<lparr>messages := messages (st r) @ [\<lparr>role = ''assistant'', content = answer\<rparr>],
                              loading := False\<rparr>\<rparr>))"

subsection \<open>Operations run to their end\<close>

text \<open>\<^verbatim>\<open>handleSubmit\<close> from the submit event to its return, on the outcomes of the two
  requests it may await.\<close>

definition handleSubmit_run :: "conversation outcome \<Rightarrow> jsval outcome \<Rightarrow> chat \<Rightarrow> result" where
  "handleSubmit_run created replied s =
     (let r1 = handleSubmit s in
      case waiting r1 of
        [HandleSubmit_create inp cur] \<Rightarrow>
          (let r2 = and_then r1 (handleSubmit_created inp cur created (st r1)) in
           case waiting r2 of
             [HandleSubmit_chat cur'] \<Rightarrow> and_then r2 (handleSubmit_replied cur' replied (st r2))
           | _ \<Rightarrow> r2)
      | [HandleSubmit_chat cur] \<Rightarrow> and_then r1 (handleSubmit_replied cur replied (st r1))
      | _ \<Rightarrow> r1)"

text \<open>\<^verbatim>\<open>loadConversations\<close> from the response on, with the \<^verbatim>\<open>selectConversation\<close> it may
  start.\<close>

definition loadConversations_then ::
  "nat option \<Rightarrow> conversation list outcome \<Rightarrow> message list outcome \<Rightarrow> chat \<Rightarrow> result" where
  "loadConversations_then cur got history s =
     (let r = loadConversations_loaded cur got s in
      case waiting r of
        [SelectConversation_await] \<Rightarrow> and_then r (selectConversation_loaded history (st r))
      | _ \<Rightarrow> r)"

text \<open>Lines 91 and 92: each conversation of the list is rendered as a row whose click
  calls \<^verbatim>\<open>selectConversation(conv.id)\<close>; \<open>k\<close> is the position of the row, and there is
  nothing to click beyond the end of the list.\<close>

definition click_conversation :: "nat \<Rightarrow> chat \<Rightarrow> result" where
  "click_conversation k s =
     (if k < length (conversations s) then selectConversation (id' (conversations s ! k)) s
      else finished s)"

text \<open>
  The five operations of the session as the component starts them, each with the
  outcomes of the requests it makes: \<^verbatim>\<open>loadConversations\<close>, \<^verbatim>\<open>selectConversation\<close> from
  the row at a position of the list, \<^verbatim>\<open>createNewConversation\<close>, \<^verbatim>\<open>deleteConversation\<close>
  of an id, and \<^verbatim>\<open>handleSubmit\<close> with the refresh of the list that follows an answer.
\<close>

datatype operation =
    LoadConversations "conversation list outcome" "message list outcome"
  | SelectConversation nat "message list outcome"
  | CreateConversation "conversation outcome"
  | DeleteConversation nat "unit outcome"
  | SendMessage "conversation outcome" "jsval outcome" "conversation list outcome" "message list outcome"

text \<open>An operation run alone, from the state the component was rendered with, until
  nothing it started is waiting any more, or until the component is unmounted.\<close>

fun run_operation :: "operation \<Rightarrow> chat \<Rightarrow> chat" where
  "run_operation (LoadConversations got history) s =
     st (loadConversations_then (currentConvId s) got history (st (loadConversations (currentConvId s) s)))"
| "run_operation (SelectConversation k history) s =
     (let r = click_conversation k s in
      case waiting r of
        [SelectConversation_await] \<Rightarrow> st (selectConversation_loaded history (st r))
      | _ \<Rightarrow> st r)"
| "run_operation (CreateConversation created) s =
     st (createNewConversation_created created (st (createNewConversation s)))"
| "run_operation (DeleteConversation convId deleted) s =
     st (deleteConversation_deleted convId (currentConvId s) deleted (st (deleteConversation convId s)))"
| "run_operation (SendMessage created replied got history) s =
     (let r = handleSubmit_run created replied s in
      if crashed r then st r
      else case waiting r of
        [LoadConversations_await cur] \<Rightarrow> st (loadConversations_then cur got history (st r))
      | _ \<Rightarrow> st r)"


text \<open>The invariant of the specification: the active id is \<^verbatim>\<open>null\<close> or the id of a
  conversation of the list.\<close>

definition session_inv :: "chat \<Rightarrow> bool" where
  "session_inv s =
     (case currentConvId s of None \<Rightarrow> True | Some i \<Rightarrow> i \<in> set (map id' (conversations s)))"



section \<open>Properties of the analytics component\<close>

subsection \<open>Colours of the period comparison\<close>

text \<open>
  C1. The colour of each delta follows the polarity table of its metric: for
  \<^verbatim>\<open>batches_pct\<close> and \<^verbatim>\<open>yield_pct\<close> a non-negative number is green and a negative one
  red; \<^verbatim>\<open>hardness_pct\<close> is blue whatever its value; for \<^verbatim>\<open>complaints_pct\<close> a
  non-positive number is green and a positive one red. At \<open>-5\<close> for all four the classes
  are red, red, blue, green.
\<close>

theorem comparison_polarity_table:
  "change_classes \<lparr>batches_pct = Pct b, yield_pct = Pct y, hardness_pct = h, complaints_pct = Pct c\<rparr>
     = [if 0 \<le> b then ''text-green-600'' else ''text-red-600'',
        if 0 \<le> y then ''text-green-600'' else ''text-red-600'',
        ''text-blue-600'',
        if c \<le> 0 then ''text-green-600'' else ''text-red-600'']
   \<and> change_classes \<lparr>batches_pct = Pct (-5), yield_pct = Pct (-5), hardness_pct = Pct (-5),
                      complaints_pct = Pct (-5)\<rparr>
     = [''text-red-600'', ''text-red-600'', ''text-blue-600'', ''text-green-600'']"
  by (simp add: change_classes_def batches_class_def yield_class_def hardness_class_def
      complaints_class_def)

theorem comparison_polarity_table_witness:
  "change_classes \<lparr>batches_pct = Pct 3, yield_pct = Pct 0, hardness_pct = Missing, complaints_pct = Pct 2\<rparr>
     = [''text-green-600'', ''text-green-600'', ''text-blue-600'', ''text-red-600'']"
  using comparison_polarity_table [of 3 0 Missing 2] by simp

subsection \<open>The aggregate load\<close>

lemma fetch_json_rejects:
  "(\<exists>e. fetch_json x = Inl e) \<longleftrightarrow> (x = NetworkFailure \<or> (\<exists>status. x = Response status None))"
  by (cases x rule: fetch_json.cases) auto

lemma promise_all_rejects:
  "\<exists>p\<in>set ps. \<exists>e. p = Inl e \<Longrightarrow> \<exists>e. promise_all ps = Inl e"
  by (induction ps rule: promise_all.induct) (auto split: sum.splits)

text \<open>
  C2, as the code has it. If one of the five requests rejects, that is on a network
  failure or on a response whose body is not JSON, \<^verbatim>\<open>loadAllData\<close> updates none of the
  five fields and only ends the loading; after the first load of the component this
  shows the "No data available" box. A response with a non-success status and a JSON
  body is no rejection: see the counterexample below.
\<close>

theorem loadAllData_all_or_nothing:
  assumes "\<exists>x\<in>set [o1, o2, o3, o4, o5]. x = NetworkFailure \<or> (\<exists>status. x = Response status None)"
  shows "loadAllData o1 o2 o3 o4 o5 s = s\<lparr>loading' := False\<rparr>
         \<and> render (loadAllData o1 o2 o3 o4 o5 analytics_init) = NoData"
proof -
  from assms have "\<exists>p\<in>set (map fetch_json [o1, o2, o3, o4, o5]). \<exists>e. p = Inl e"
    using fetch_json_rejects by auto
  then obtain e where "promise_all (map fetch_json [o1, o2, o3, o4, o5]) = Inl e"
    using promise_all_rejects by blast
  then have unchanged: "loadAllData o1 o2 o3 o4 o5 t = t\<lparr>loading' := False\<rparr>" for t
    by (simp add: loadAllData_def)
  show ?thesis
    by (simp add: unchanged render_def analytics_init_def)
qed

theorem loadAllData_all_or_nothing_witness:
  "loadAllData (Response 200 (Some (JObj [(''has_data'', JBool True)]))) NetworkFailure
      (Response 200 (Some JNull)) (Response 500 None) (Response 200 (Some JNull)) analytics_init
     = analytics_init\<lparr>loading' := False\<rparr>"
  using loadAllData_all_or_nothing
    [of "Response 200 (Some (JObj [(''has_data'', JBool True)]))" NetworkFailure
        "Response 200 (Some JNull)" "Response 500 None" "Response 200 (Some JNull)" analytics_init]
  by simp

text \<open>When all five requests resolve, the five fields are the five bodies.\<close>

lemma loadAllData_all_resolved:
  "loadAllData (Response s1 (Some v1)) (Response s2 (Some v2)) (Response s3 (Some v3))
       (Response s4 (Some v4)) (Response s5 (Some v5)) s
     = s\<lparr>overview := v1, yearly := v2, suppliers := v3, equipment := v4, comparison := v5,
         loading' := False\<rparr>"
  by (simp add: loadAllData_def)

text \<open>
  The claim as stated fails: the overview request is answered with status 404 and the
  JSON body \<^verbatim>\<open>{"detail": "Not Found"}\<close>, a failed sub-fetch in the words of the
  specification, and all five fields are updated, the overview with the error body.
\<close>

theorem loadAllData_non_success_counterexample:
  "spec_fetch_failed (Response 404 (Some (JObj [(''detail'', JStr ''Not Found'')])))
   \<and> loadAllData (Response 404 (Some (JObj [(''detail'', JStr ''Not Found'')])))
        (Response 200 (Some (JObj [(''years'', JArr [])])))
        (Response 200 (Some (JObj [(''suppliers'', JArr [])])))
        (Response 200 (Some (JObj [(''equipment'', JArr [])])))
        (Response 200 (Some (JObj [(''changes'', JNull)])))
        analytics_init
     = \<lparr>overview = JObj [(''detail'', JStr ''Not Found'')],
        yearly = JObj [(''years'', JArr [])],
        suppliers = JObj [(''suppliers'', JArr [])],
        equipment = JObj [(''equipment'', JArr [])],
        comparison = JObj [(''changes'', JNull)],
        loading' = False\<rparr>"
  by (simp add: loadAllData_def analytics_init_def)

subsection \<open>Radar chart\<close>

text \<open>
  C3. For a well-formed overview the radar data has exactly four entries, for yield, QC
  pass rate, calibration pass rate and quality score; the value of each entry is a
  number from 0 to 100; it is 0 when the source field is missing or falsy and the source
  field itself otherwise, so never \<^verbatim>\<open>NaN\<close>, \<^verbatim>\<open>null\<close> or \<^verbatim>\<open>undefined\<close>.
\<close>

theorem radarData_four_percentages:
  assumes "wf_overview ov"
  shows "length (radarData ov) = 4
       \<and> map (\<lambda>e. opt_prop e ''metric'') (radarData ov)
           = [JStr ''Yield'', JStr ''QC Pass'', JStr ''Calibrations OK'', JStr ''Quality Score'']
       \<and> (\<forall>i<4. is_percentage (opt_prop (radarData ov ! i) ''value'')
              \<and> (\<not> truthy (radar_sources ov ! i) \<longrightarrow> opt_prop (radarData ov ! i) ''value'' = JNum 0)
              \<and> (truthy (radar_sources ov ! i)
                   \<longrightarrow> opt_prop (radarData ov ! i) ''value'' = radar_sources ov ! i))"
  using assms
  by (auto simp add: wf_overview_def radarData_def radar_sources_def js_or_def less_Suc_eq
      numeral_eq_Suc)

theorem radarData_four_percentages_witness:
  "wf_overview (JObj [(''production'', JObj [(''avg_yield'', JNum 97)]),
                      (''quality'', JObj [(''pass_rate'', JNull)])])
   \<and> length (radarData (JObj [(''production'', JObj [(''avg_yield'', JNum 97)]),
                               (''quality'', JObj [(''pass_rate'', JNull)])])) = 4
   \<and> map (\<lambda>e. opt_prop e ''value'')
        (radarData (JObj [(''production'', JObj [(''avg_yield'', JNum 97)]),
                          (''quality'', JObj [(''pass_rate'', JNull)])]))
      = [JNum 97, JNum 0, JNum 0, JNum 0]"
proof -
  let ?ov = "JObj [(''production'', JObj [(''avg_yield'', JNum 97)]),
                   (''quality'', JObj [(''pass_rate'', JNull)])]"
  have wf: "wf_overview ?ov"
    by (simp add: wf_overview_def radar_sources_def)
  have "length (radarData ?ov) = 4"
    using radarData_four_percentages [OF wf] by blast
  moreover have "map (\<lambda>e. opt_prop e ''value'') (radarData ?ov) = [JNum 97, JNum 0, JNum 0, JNum 0]"
    by (simp add: radarData_def js_or_def)
  ultimately show ?thesis using wf by blast
qed

subsection \<open>Supplier pie chart\<close>

lemma pie_entry_object:
  assumes "s \<noteq> JUndefined" "s \<noteq> JNull"
  shows "pie_entry s =
     Inr (JObj [(''name'', js_or (opt_prop s ''supplier_name'') (opt_prop s ''supplier_id'')),
                (''value'', opt_prop s ''total_deliveries''),
                (''rate'', opt_prop s ''approval_rate'')])"
  using assms by (cases s) (simp_all add: pie_entry_def)

lemma map_throwing_total:
  "\<forall>x\<in>set xs. f x = Inr (g x) \<Longrightarrow> map_throwing f xs = Inr (map g xs)"
  by (induction xs) simp_all

text \<open>
  C4. For a supplier snapshot whose \<^verbatim>\<open>suppliers\<close> list has \<open>n\<close> entries (none of the
  first five \<^verbatim>\<open>null\<close>), the pie data is the first \<open>min 5 n\<close> entries in the order of the
  backend, neither sorted nor padded, the \<open>i\<close>-th one with the name, the
  \<^verbatim>\<open>total_deliveries\<close> as value and the \<^verbatim>\<open>approval_rate\<close> as rate of the \<open>i\<close>-th supplier.
\<close>

theorem supplierPieData_first_five:
  assumes "opt_prop snapshot ''suppliers'' = JArr xs"
    and "\<forall>s\<in>set (take 5 xs). s \<noteq> JUndefined \<and> s \<noteq> JNull"
  shows "\<exists>es. supplierPieData snapshot = Inr (JArr es)
           \<and> length es = min 5 (length xs)
           \<and> (\<forall>i<length es.
                 opt_prop (es ! i) ''name''
                   = js_or (opt_prop (xs ! i) ''supplier_name'') (opt_prop (xs ! i) ''supplier_id'')
               \<and> opt_prop (es ! i) ''value'' = opt_prop (xs ! i) ''total_deliveries''
               \<and> opt_prop (es ! i) ''rate'' = opt_prop (xs ! i) ''approval_rate'')"
proof -
  define g where "g = (\<lambda>s. JObj
     [(''name'', js_or (opt_prop s ''supplier_name'') (opt_prop s ''supplier_id'')),
      (''value'', opt_prop s ''total_deliveries''),
      (''rate'', opt_prop s ''approval_rate'')])"
  have "\<forall>s\<in>set (take 5 xs). pie_entry s = Inr (g s)"
    using assms(2) pie_entry_object by (simp add: g_def)
  then have "map_throwing pie_entry (take 5 xs) = Inr (map g (take 5 xs))"
    by (rule map_throwing_total)
  then have res: "supplierPieData snapshot = Inr (JArr (map g (take 5 xs)))"
    using assms(1) by simp
  have "length (map g (take 5 xs)) = min 5 (length xs)"
    by simp
  moreover have "\<forall>i<length (map g (take 5 xs)).
        opt_prop (map g (take 5 xs) ! i) ''name''
          = js_or (opt_prop (xs ! i) ''supplier_name'') (opt_prop (xs ! i) ''supplier_id'')
      \<and> opt_prop (map g (take 5 xs) ! i) ''value'' = opt_prop (xs ! i) ''total_deliveries''
      \<and> opt_prop (map g (take 5 xs) ! i) ''rate'' = opt_prop (xs ! i) ''approval_rate''"
    by (simp add: g_def)
  ultimately show ?thesis using res by blast
qed

theorem supplierPieData_first_five_witness:
  "\<exists>es. supplierPieData (JObj [(''suppliers'', JArr
            [JObj [(''supplier_id'', JStr ''S1''), (''total_deliveries'', JNum 7)],
             JObj [(''supplier_name'', JStr ''B''), (''total_deliveries'', JNum 6)],
             JObj [(''total_deliveries'', JNum 5)], JObj [(''total_deliveries'', JNum 4)],
             JObj [(''total_deliveries'', JNum 3)], JObj [(''total_deliveries'', JNum 2)]])])
          = Inr (JArr es)
      \<and> length es = 5
      \<and> opt_prop (es ! 0) ''name'' = JStr ''S1''
      \<and> opt_prop (es ! 4) ''value'' = JNum 3"
proof -
  let ?xs = "[JObj [(''supplier_id'', JStr ''S1''), (''total_deliveries'', JNum 7)],
             JObj [(''supplier_name'', JStr ''B''), (''total_deliveries'', JNum 6)],
             JObj [(''total_deliveries'', JNum 5)], JObj [(''total_deliveries'', JNum 4)],
             JObj [(''total_deliveries'', JNum 3)], JObj [(''total_deliveries'', JNum 2)]]"
  have "opt_prop (JObj [(''suppliers'', JArr ?xs)]) ''suppliers'' = JArr ?xs"
    by simp
  moreover have "\<forall>s\<in>set (take 5 ?xs). s \<noteq> JUndefined \<and> s \<noteq> JNull"
    by simp
  ultimately obtain es where
    es: "supplierPieData (JObj [(''suppliers'', JArr ?xs)]) = Inr (JArr es)"
      "length es = min 5 (length ?xs)"
      "\<forall>i<length es.
         opt_prop (es ! i) ''name''
           = js_or (opt_prop (?xs ! i) ''supplier_name'') (opt_prop (?xs ! i) ''supplier_id'')
       \<and> opt_prop (es ! i) ''value'' = opt_prop (?xs ! i) ''total_deliveries''
       \<and> opt_prop (es ! i) ''rate'' = opt_prop (?xs ! i) ''approval_rate''"
    using supplierPieData_first_five [of "JObj [(''suppliers'', JArr ?xs)]" ?xs] by blast
  from es(2) have len: "length es = 5"
    by simp
  from es(3) len have "opt_prop (es ! 0) ''name'' = JStr ''S1''"
    by (simp add: js_or_def)
  moreover from es(3) len have "opt_prop (es ! 4) ''value'' = JNum 3"
    by simp
  ultimately show ?thesis using es(1) len by blast
qed

section \<open>Properties of the summary stream\<close>

lemma deliver_terminal_once:
  assumes "length (filter is_terminal (calls s)) \<le> (if closed s then 1 else 0)"
  shows "length (filter is_terminal (calls (deliver h ev s)))
           \<le> (if closed (deliver h ev s) then 1 else 0)"
proof (cases "closed s")
  case True
  then show ?thesis using assms by (simp add: deliver_def)
next
  case False
  with assms have none: "filter is_terminal (calls s) = []"
    by simp
  show ?thesis
  proof (cases ev)
    case (Message parsed)
    then show ?thesis
      using False none
      by (simp add: deliver_def onmessage_def split: option.splits sum.splits)
  next
    case ConnectionError
    then show ?thesis
      using False none by (simp add: deliver_def onerror_def)
  qed
qed

lemma fold_deliver_terminal_once:
  "length (filter is_terminal (calls s)) \<le> (if closed s then 1 else 0)
   \<Longrightarrow> length (filter is_terminal (calls (fold (deliver h) evs s)))
         \<le> (if closed (fold (deliver h) evs s) then 1 else 0)"
proof (induction evs arbitrary: s)
  case Nil
  then show ?case by simp
next
  case (Cons ev evs)
  have "length (filter is_terminal (calls (deliver h ev s)))
          \<le> (if closed (deliver h ev s) then 1 else 0)"
    using Cons.prems by (rule deliver_terminal_once)
  then show ?case using Cons.IH by simp
qed

lemma streamSummary_terminal_once:
  "length (filter is_terminal (calls (streamSummary h evs))) \<le> 1"
proof -
  have "length (filter is_terminal (calls (fold (deliver h) evs sse_open)))
         \<le> (if closed (fold (deliver h) evs sse_open) then 1 else 0)"
    by (rule fold_deliver_terminal_once) (simp add: sse_open_def)
  then show ?thesis
    by (simp add: streamSummary_def split: if_splits)
qed

text \<open>
  C7, as the code has it, for a browser's \<^verbatim>\<open>EventSource\<close>, which dispatches no event
  once it is closed. On an open channel whose caller gave both optional callbacks:
  \<^verbatim>\<open>{done:true}\<close> closes the channel and calls the completion callback once; an
  \<^verbatim>\<open>{error}\<close> payload with a non-empty message closes the channel and calls the error
  callback once with the message; a \<^verbatim>\<open>{text}\<close> payload with a non-empty text calls the
  chunk callback with it and leaves the channel open; any payload whose \<^verbatim>\<open>done\<close>,
  \<^verbatim>\<open>error\<close> and \<^verbatim>\<open>text\<close> are all missing or falsy, such as \<^verbatim>\<open>{error:""}\<close> and
  \<^verbatim>\<open>{text:""}\<close>, is ignored: no callback is called and the channel stays open; a
  transport error closes the channel and calls the error callback with
  \<^verbatim>\<open>'Connection error'\<close>. Over any sequence of events at most one completion or error
  call is made. The events \<^verbatim>\<open>{text:"a"}, {text:"b"}, {done:true}\<close> give
  the output \<^verbatim>\<open>"ab"\<close>, one completion call and no error call, and
  \<^verbatim>\<open>{text:"a"}, {error:"x"}\<close> give \<^verbatim>\<open>"a"\<close>, one error call with \<^verbatim>\<open>"x"\<close> and no
  completion call.
\<close>

theorem streamSummary_dispatch:
  assumes "has_onDone h" and "has_onError h" and "\<not> closed s"
  shows "deliver h done_payload s = s\<lparr>closed := True, calls := calls s @ [OnDone]\<rparr>
       \<and> (m \<noteq> [] \<longrightarrow> deliver h (error_payload m) s
                         = s\<lparr>closed := True, calls := calls s @ [OnError (JStr m)]\<rparr>)
       \<and> (t \<noteq> [] \<longrightarrow> deliver h (text_payload t) s = s\<lparr>calls := calls s @ [OnChunk (JStr t)]\<rparr>)
       \<and> deliver h (error_payload []) s = s
       \<and> deliver h (text_payload []) s = s
       \<and> deliver h ConnectionError s
           = s\<lparr>closed := True, calls := calls s @ [OnError (JStr ''Connection error'')]\<rparr>
       \<and> length (filter is_terminal (calls (streamSummary h evs))) \<le> 1
       \<and> streamSummary h [text_payload ''a'', text_payload ''b'', done_payload]
           = \<lparr>closed = True, calls = [OnChunk (JStr ''a''), OnChunk (JStr ''b''), OnDone]\<rparr>
       \<and> accumulated (calls (streamSummary h [text_payload ''a'', text_payload ''b'', done_payload]))
           = ''ab''
       \<and> streamSummary h [text_payload ''a'', error_payload ''x'']
           = \<lparr>closed = True, calls = [OnChunk (JStr ''a''), OnError (JStr ''x'')]\<rparr>
       \<and> accumulated (calls (streamSummary h [text_payload ''a'', error_payload ''x''])) = ''a''
       \<and> (\<not> truthy (opt_prop payload ''done'') \<and> \<not> truthy (opt_prop payload ''error'')
            \<and> \<not> truthy (opt_prop payload ''text'')
          \<longrightarrow> deliver h (Message (Some payload)) s = s)"
proof -
  have 1: "deliver h done_payload s = s\<lparr>closed := True, calls := calls s @ [OnDone]\<rparr>"
    using assms by (simp add: deliver_def onmessage_def done_payload_def)
  have 2: "m \<noteq> [] \<longrightarrow> deliver h (error_payload m) s
                         = s\<lparr>closed := True, calls := calls s @ [OnError (JStr m)]\<rparr>"
    using assms by (simp add: deliver_def onmessage_def error_payload_def)
  have 3: "t \<noteq> [] \<longrightarrow> deliver h (text_payload t) s = s\<lparr>calls := calls s @ [OnChunk (JStr t)]\<rparr>"
    using assms by (simp add: deliver_def onmessage_def text_payload_def)
  have 4: "deliver h (error_payload []) s = s"
    using assms by (simp add: deliver_def onmessage_def error_payload_def)
  have 5: "deliver h (text_payload []) s = s"
    using assms by (simp add: deliver_def onmessage_def text_payload_def)
  have 6: "deliver h ConnectionError s
           = s\<lparr>closed := True, calls := calls s @ [OnError (JStr ''Connection error'')]\<rparr>"
    using assms by (simp add: deliver_def onerror_def)
  have 7: "length (filter is_terminal (calls (streamSummary h evs))) \<le> 1"
    by (rule streamSummary_terminal_once)
  have 8: "streamSummary h [text_payload ''a'', text_payload ''b'', done_payload]
           = \<lparr>closed = True, calls = [OnChunk (JStr ''a''), OnChunk (JStr ''b''), OnDone]\<rparr>"
    using assms(1,2)
    by (simp add: streamSummary_def sse_open_def deliver_def onmessage_def text_payload_def
        done_payload_def)
  have 9: "streamSummary h [text_payload ''a'', error_payload ''x'']
           = \<lparr>closed = True, calls = [OnChunk (JStr ''a''), OnError (JStr ''x'')]\<rparr>"
    using assms(1,2)
    by (simp add: streamSummary_def sse_open_def deliver_def onmessage_def text_payload_def
        error_payload_def)
  have 10: "\<not> truthy (opt_prop payload ''done'') \<and> \<not> truthy (opt_prop payload ''error'')
            \<and> \<not> truthy (opt_prop payload ''text'')
          \<longrightarrow> deliver h (Message (Some payload)) s = s"
    using assms(3) by (cases payload) (simp_all add: deliver_def onmessage_def)
  show ?thesis
    using 1 2 3 4 5 6 7 10 by (simp add: 8 9)
qed

theorem streamSummary_dispatch_witness:
  "deliver \<lparr>has_onDone = True, has_onError = True\<rparr> (error_payload ''boom'') sse_open
     = \<lparr>closed = True, calls = [OnError (JStr ''boom'')]\<rparr>
   \<and> deliver \<lparr>has_onDone = True, has_onError = True\<rparr> (text_payload ''hi'') sse_open
     = \<lparr>closed = False, calls = [OnChunk (JStr ''hi'')]\<rparr>
   \<and> deliver \<lparr>has_onDone = True, has_onError = True\<rparr>
        (Message (Some (JObj [(''done'', JBool False), (''error'', JNull), (''text'', JNum 0)]))) sse_open
     = \<lparr>closed = False, calls = []\<rparr>"
  using streamSummary_dispatch
    [where h = "\<lparr>has_onDone = True, has_onError = True\<rparr>" and s = sse_open and m = "''boom''"
       and t = "''hi''" and evs = "[]"
       and payload = "JObj [(''done'', JBool False), (''error'', JNull), (''text'', JNum 0)]"]
  by (simp add: sse_open_def)

text \<open>
  The claim as stated fails at the payload \<^verbatim>\<open>{error:""}\<close>: the channel stays open and
  no callback is called; likewise \<^verbatim>\<open>{text:""}\<close> does not reach the chunk callback.
\<close>

theorem streamSummary_empty_error_counterexample:
  "closed (deliver \<lparr>has_onDone = True, has_onError = True\<rparr> (error_payload []) sse_open) = False
   \<and> calls (deliver \<lparr>has_onDone = True, has_onError = True\<rparr> (error_payload []) sse_open) = []
   \<and> calls (deliver \<lparr>has_onDone = True, has_onError = True\<rparr> (text_payload []) sse_open) = []"
  by (simp add: deliver_def onmessage_def error_payload_def text_payload_def sse_open_def)

section \<open>Properties of the chat component\<close>

lemmas chat_pieces =
  handleSubmit_def handleSubmit_send_def handleSubmit_created_def handleSubmit_replied_def
  handleSubmit_failed_def loadConversations_def finished_def and_then_def

subsection \<open>Sending a message\<close>

text \<open>
  When the input is empty after trimming or the pending flag is set, \<^verbatim>\<open>handleSubmit\<close>
  does nothing: the state is the same (no user message, the flag untouched), no request
  is issued, nothing is left waiting and no error is raised. So once a first call has
  set the flag, at once when a conversation is active and after the new conversation
  has arrived otherwise, a second call is dropped.
\<close>

lemma handleSubmit_noop:
  "(trim (input s) = [] \<or> loading s \<longrightarrow>
      handleSubmit s = \<lparr>st = s, issued = [], waiting = [], threw = False, crashed = False\<rparr>)
   \<and> (trim (input s) \<noteq> [] \<and> \<not> loading s \<and> currentConvId s = Some convId \<and> convId \<noteq> 0 \<longrightarrow>
        loading (st (handleSubmit s))
      \<and> issued (handleSubmit s) = [Api_chat convId (input s)]
      \<and> handleSubmit (st (handleSubmit s))
          = \<lparr>st = st (handleSubmit s), issued = [], waiting = [], threw = False, crashed = False\<rparr>)
   \<and> (trim (input s) \<noteq> [] \<and> \<not> loading s \<and> no_id (currentConvId s) \<longrightarrow>
        (let r = and_then (handleSubmit s)
                   (handleSubmit_created (input s) (currentConvId s) (Resolved conv) (st (handleSubmit s)))
         in loading (st r)
          \<and> issued r = [Api_createConversation, Api_chat (id' conv) (input s)]
          \<and> handleSubmit (st r)
              = \<lparr>st = st r, issued = [], waiting = [], threw = False, crashed = False\<rparr>))"
  by (auto simp add: chat_pieces Let_def)

text \<open>
  While the first call still awaits the creation of the conversation (line 62), the
  pending flag is not set yet (line 70 comes later) and the input is not cleared: a
  second submit in that window runs like the first and asks for another conversation.
\<close>

lemma handleSubmit_twice_before_creation:
  assumes "trim (input s) \<noteq> []" and "\<not> loading s" and "no_id (currentConvId s)"
  shows "st (handleSubmit s) = s
       \<and> issued (handleSubmit s) = [Api_createConversation]
       \<and> issued (handleSubmit (st (handleSubmit s))) = [Api_createConversation]"
  using assms by (simp add: handleSubmit_def)

lemma trim_a: "trim ''a'' = ''a''"
  by (simp add: trim_def is_space_def)

text \<open>
  C5 at the input where the code departs from it: no conversation is active, the input
  is \<^verbatim>\<open>"a"\<close>, and the form is submitted twice before the request that creates the
  conversation is answered. The second call is not dropped: it issues a second creation
  request, and when the two conversations arrive each call appends its user message and
  issues its chat request, so two chat requests are sent and the list ends with two user
  messages.
\<close>

theorem handleSubmit_twice_rapid:
  "handleSubmit \<lparr>conversations = [], currentConvId = None, messages = [], input = ''a'', loading = False\<rparr>
     = \<lparr>st = \<lparr>conversations = [], currentConvId = None, messages = [], input = ''a'', loading = False\<rparr>,
        issued = [Api_createConversation], waiting = [HandleSubmit_create ''a'' None],
        threw = False, crashed = False\<rparr>
   \<and> handleSubmit (st (handleSubmit
        \<lparr>conversations = [], currentConvId = None, messages = [], input = ''a'', loading = False\<rparr>))
     = \<lparr>st = \<lparr>conversations = [], currentConvId = None, messages = [], input = ''a'', loading = False\<rparr>,
        issued = [Api_createConversation], waiting = [HandleSubmit_create ''a'' None],
        threw = False, crashed = False\<rparr>
   \<and> handleSubmit_created ''a'' None (Resolved \<lparr>id' = 1, title = ''New''\<rparr>)
        \<lparr>conversations = [], currentConvId = None, messages = [], input = ''a'', loading = False\<rparr>
     = \<lparr>st = \<lparr>conversations = [\<lparr>id' = 1, title = ''New''\<rparr>], currentConvId = Some 1,
              messages = [\<lparr>role = ''user'', content = JStr ''a''\<rparr>], input = [], loading = True\<rparr>,
        issued = [Api_chat 1 ''a''], waiting = [HandleSubmit_chat None],
        threw = False, crashed = False\<rparr>
   \<and> handleSubmit_created ''a'' None (Resolved \<lparr>id' = 2, title = ''New''\<rparr>)
        \<lparr>conversations = [\<lparr>id' = 1, title = ''New''\<rparr>], currentConvId = Some 1,
         messages = [\<lparr>role = ''user'', content = JStr ''a''\<rparr>], input = [], loading = True\<rparr>
     = \<lparr>st = \<lparr>conversations = [\<lparr>id' = 2, title = ''New''\<rparr>, \<lparr>id' = 1, title = ''New''\<rparr>],
              currentConvId = Some 2,
              messages = [\<lparr>role = ''user'', content = JStr ''a''\<rparr>,
                          \<lparr>role = ''user'', content = JStr ''a''\<rparr>],
              input = [], loading = True\<rparr>,
        issued = [Api_chat 2 ''a''], waiting = [HandleSubmit_chat None],
        threw = False, crashed = False\<rparr>"
  by (simp add: chat_pieces trim_a)

lemma trim_x: "trim ''x'' = ''x''"
  by (simp add: trim_def is_space_def)

text \<open>
  Where a conversation is active, or the new one is created, and the reply is not
  \<^verbatim>\<open>null\<close>, a send that passes the precondition ends with the user message followed by
  exactly one assistant message, the answer or the fixed fallback, and with the pending
  flag down.
\<close>

lemma handleSubmit_terminal_reply:
  assumes "trim (input s) \<noteq> []" and "\<not> loading s"
    and "no_id (currentConvId s) \<longrightarrow> created \<noteq> Rejected"
    and "replied \<noteq> Resolved JNull" and "replied \<noteq> Resolved JUndefined"
  shows "\<exists>answer. messages (st (handleSubmit_run created replied s))
           = messages s @ [\<lparr>role = ''user'', content = JStr (input s)\<rparr>,
                           \<lparr>role = ''assistant'', content = answer\<rparr>]
         \<and> (replied = Rejected \<and> answer = JStr ''Connection error.''
              \<or> (\<exists>response. replied = Resolved response \<and> answer = opt_prop response ''response''))
         \<and> \<not> loading (st (handleSubmit_run created replied s))
         \<and> \<not> threw (handleSubmit_run created replied s)
         \<and> \<not> crashed (handleSubmit_run created replied s)"
proof -
  have reply: "get_prop response ''response'' = Inr (opt_prop response ''response'')"
    if "replied = Resolved response" for response
    using that assms(4,5) by (cases response) simp_all
  show ?thesis
    using assms(1,2,3) reply
    by (cases created; cases replied; cases "currentConvId s")
       (auto simp add: handleSubmit_run_def chat_pieces Let_def)
qed

text \<open>
  A reply that is \<^verbatim>\<open>null\<close> is not caught: the refresh of the list is requested, the
  updater of line 73 throws at the next render, and the last state rendered has the
  user message only and the pending flag up.
\<close>

lemma handleSubmit_null_reply:
  assumes "trim (input s) \<noteq> []" and "\<not> loading s"
    and "currentConvId s = Some convId" and "convId \<noteq> 0"
  shows "handleSubmit_run created (Resolved JNull) s
     = \<lparr>st = s\<lparr>messages := messages s @ [\<lparr>role = ''user'', content = JStr (input s)\<rparr>],
               input := [], loading := True\<rparr>,
        issued = [Api_chat convId (input s), Api_getConversations],
        waiting = [LoadConversations_await (Some convId)], threw = False, crashed = True\<rparr>"
  using assms by (simp add: handleSubmit_run_def chat_pieces Let_def)

text \<open>
  C6 at the input where the code departs from it: no conversation is active, the input
  is \<^verbatim>\<open>"x"\<close>, and the request that creates the conversation rejects. \<^verbatim>\<open>handleSubmit\<close>
  ends with a rejected promise and an unchanged state: neither the user message nor an
  assistant message is appended.
\<close>

theorem handleSubmit_create_rejected:
  "handleSubmit_run Rejected Rejected
     \<lparr>conversations = [], currentConvId = None, messages = [], input = ''x'', loading = False\<rparr>
   = \<lparr>st = \<lparr>conversations = [], currentConvId = None, messages = [], input = ''x'', loading = False\<rparr>,
      issued = [Api_createConversation], waiting = [], threw = True, crashed = False\<rparr>"
  by (simp add: handleSubmit_run_def chat_pieces trim_x)

subsection \<open>Deleting a conversation\<close>

text \<open>
  C8. When the request succeeds, \<^verbatim>\<open>deleteConversation(id)\<close> removes the conversation
  with that id from the list; if it was the active one, the active id becomes \<^verbatim>\<open>null\<close>
  and the messages empty, and nothing else is selected: no request is issued and nothing
  is left waiting, also when other conversations remain. Otherwise the active id and the
  messages stay.
\<close>

theorem deleteConversation_removes:
  "(let r = deleteConversation_deleted convId (currentConvId s) (Resolved u)
              (st (deleteConversation convId s))
    in conversations (st r) = filter (\<lambda>c. id' c \<noteq> convId) (conversations s)
     \<and> convId \<notin> set (map id' (conversations (st r)))
     \<and> (convId \<in> set (map id' (conversations s))
          \<longrightarrow> length (conversations (st r)) < length (conversations s))
     \<and> (currentConvId s = Some convId \<longrightarrow> currentConvId (st r) = None \<and> messages (st r) = [])
     \<and> (currentConvId s \<noteq> Some convId
          \<longrightarrow> currentConvId (st r) = currentConvId s \<and> messages (st r) = messages s)
     \<and> issued r = [] \<and> waiting r = [] \<and> \<not> threw r
     \<and> st r = run_operation (DeleteConversation convId (Resolved u)) s)"
proof -
  have "length (filter (\<lambda>c. id' c \<noteq> convId) (conversations s)) < length (conversations s)"
    if "convId \<in> set (map id' (conversations s))"
  proof -
    from that obtain c where "c \<in> set (conversations s)" and "id' c = convId"
      by auto
    then show ?thesis
      by (intro length_filter_less [of c]) simp_all
  qed
  then show ?thesis
    by (auto simp add: deleteConversation_deleted_def deleteConversation_def finished_def Let_def)
qed

theorem deleteConversation_removes_witness:
  "run_operation (DeleteConversation 1 (Resolved ()))
     \<lparr>conversations = [\<lparr>id' = 1, title = ''first''\<rparr>, \<lparr>id' = 2, title = ''second''\<rparr>],
      currentConvId = Some 1, messages = [\<lparr>role = ''user'', content = JStr ''hi''\<rparr>],
      input = [], loading = False\<rparr>
   = \<lparr>conversations = [\<lparr>id' = 2, title = ''second''\<rparr>], currentConvId = None, messages = [],
      input = [], loading = False\<rparr>"
  using deleteConversation_removes
    [of 1 "\<lparr>conversations = [\<lparr>id' = 1, title = ''first''\<rparr>, \<lparr>id' = 2, title = ''second''\<rparr>],
            currentConvId = Some 1, messages = [\<lparr>role = ''user'', content = JStr ''hi''\<rparr>],
            input = [], loading = False\<rparr>" "()"]
  by (simp add: deleteConversation_deleted_def deleteConversation_def finished_def)

text \<open>
  C10. When the delete request rejects, the state is left as it was: the conversation
  stays in the list, the active id and the messages are untouched, and the error is
  caught, so the promise of \<^verbatim>\<open>deleteConversation\<close> does not reject.
\<close>

theorem deleteConversation_failure:
  "deleteConversation_deleted convId cur Rejected s
     = \<lparr>st = s, issued = [], waiting = [], threw = False, crashed = False\<rparr>
   \<and> st (deleteConversation convId s) = s
   \<and> run_operation (DeleteConversation convId Rejected) s = s"
  by (simp add: deleteConversation_deleted_def deleteConversation_def finished_def)

theorem deleteConversation_failure_witness:
  "run_operation (DeleteConversation 1 Rejected)
     \<lparr>conversations = [\<lparr>id' = 1, title = ''first''\<rparr>], currentConvId = Some 1,
      messages = [\<lparr>role = ''user'', content = JStr ''hi''\<rparr>], input = [], loading = False\<rparr>
   = \<lparr>conversations = [\<lparr>id' = 1, title = ''first''\<rparr>], currentConvId = Some 1,
      messages = [\<lparr>role = ''user'', content = JStr ''hi''\<rparr>], input = [], loading = False\<rparr>"
  using deleteConversation_failure
    [of 1 "Some 1" "\<lparr>conversations = [\<lparr>id' = 1, title = ''first''\<rparr>], currentConvId = Some 1,
      messages = [\<lparr>role = ''user'', content = JStr ''hi''\<rparr>], input = [], loading = False\<rparr>"]
  by simp

subsection \<open>The active conversation is a listed one\<close>



text \<open>A refresh that does not select keeps the invariant exactly when the fetched list
  has the active conversation: the list is replaced whatever the active id is.\<close>

lemma refresh_keeps_invariant_iff:
  assumes "\<not> no_id cur"
  shows "session_inv (st (loadConversations_loaded cur (Resolved convs) s))
         \<longleftrightarrow> (case currentConvId s of None \<Rightarrow> True | Some i \<Rightarrow> i \<in> set (map id' convs))"
  using assms
  by (cases convs; cases "currentConvId s")
     (simp_all add: loadConversations_loaded_def finished_def session_inv_def)




text \<open>
  Two operations that overlap break the invariant with a backend that answers as it
  should: conversation 2 is active, the deletion of conversation 1 is requested, and
  the row of conversation 1 is clicked before the deletion is answered. The continuation
  of \<^verbatim>\<open>deleteConversation\<close> compares the id with the active id of its closure, which is
  still 2, removes conversation 1 from the list and leaves it active.
\<close>

lemma overlapping_delete_breaks_invariant:
  "waiting (deleteConversation 1
       \<lparr>conversations = [\<lparr>id' = 1, title = ''first''\<rparr>, \<lparr>id' = 2, title = ''second''\<rparr>],
        currentConvId = Some 2, messages = [], input = [], loading = False\<rparr>)
     = [DeleteConversation_await 1 (Some 2)]
   \<and> st (deleteConversation_deleted 1 (Some 2) (Resolved ())
          (run_operation (SelectConversation 0 (Resolved []))
             \<lparr>conversations = [\<lparr>id' = 1, title = ''first''\<rparr>, \<lparr>id' = 2, title = ''second''\<rparr>],
              currentConvId = Some 2, messages = [], input = [], loading = False\<rparr>))
     = \<lparr>conversations = [\<lparr>id' = 2, title = ''second''\<rparr>], currentConvId = Some 1,
        messages = [], input = [], loading = False\<rparr>
   \<and> \<not> session_inv \<lparr>conversations = [\<lparr>id' = 2, title = ''second''\<rparr>], currentConvId = Some 1,
        messages = [], input = [], loading = False\<rparr>"
  by (simp add: deleteConversation_def deleteConversation_deleted_def click_conversation_def
      selectConversation_def selectConversation_loaded_def finished_def session_inv_def)

end
